theory Spec2Isabelle
  imports Complex_Main
begin

section \<open>Python values, errors and settings\<close>

text \<open>
  The settings object of the framework carries arbitrary named attributes
  (\<^verbatim>\<open>self.settings.stage\<close>, \<^verbatim>\<open>self.settings.delay = 3\<close>), so it is a
  finite map from attribute names to Python values. Numbers are rationals: the
  integer and float literals of the source (\<^verbatim>\<open>1\<close>, \<^verbatim>\<open>0.08\<close>) are the
  rationals they denote, and Python compares an int and a float by value.
\<close>

datatype val = Num rat | Str string | Bool bool | StrList "string list"

datatype error = AttributeError string | IndexError | TypeError | Exception string

type_synonym settings = "string \<rightharpoonup> val"

text \<open>Sequencing of computations that may raise: the first exception wins.\<close>

definition bind :: "error + 'a \<Rightarrow> ('a \<Rightarrow> error + 'b) \<Rightarrow> error + 'b" where
  "bind m f = (case m of Inl e \<Rightarrow> Inl e | Inr x \<Rightarrow> f x)"

text \<open>
  Modelled from the spec: the settings class belongs to the framework. Its
  attributes are those assigned to it, and reading an attribute that was never
  assigned raises \<^verbatim>\<open>AttributeError\<close>, as for any Python object.
\<close>

definition getattr :: "settings \<Rightarrow> string \<Rightarrow> error + val" where
  "getattr s k = (case s k of None \<Rightarrow> Inl (AttributeError k) | Some v \<Rightarrow> Inr v)"

text \<open>Python's \<^verbatim>\<open>==\<close> on the values above; \<^verbatim>\<open>True == 1\<close> holds in Python.\<close>

fun num_of :: "val \<Rightarrow> rat option" where
  "num_of (Num r) = Some r"
| "num_of (Bool b) = Some (if b then 1 else 0)"
| "num_of _ = None"

definition py_eq :: "val \<Rightarrow> val \<Rightarrow> bool" where
  "py_eq a b = (case (num_of a, num_of b) of
                  (Some x, Some y) \<Rightarrow> x = y
                | (None, None) \<Rightarrow> a = b
                | _ \<Rightarrow> False)"

text \<open>Python's substring test \<^verbatim>\<open>sub in s\<close> on strings.\<close>

fun contains :: "string \<Rightarrow> string \<Rightarrow> bool" where
  "contains sub [] = (sub = [])"
| "contains sub (c # cs) = (take (length sub) (c # cs) = sub \<or> contains sub cs)"

text \<open>
  Positional indexing \<^verbatim>\<open>.iloc[i]\<close> (and list indexing): a negative index counts
  from the end, an index out of range raises \<^verbatim>\<open>IndexError\<close>.
\<close>

definition iloc :: "'a list \<Rightarrow> int \<Rightarrow> error + 'a" where
  "iloc xs i =
     (if 0 \<le> i \<and> i < int (length xs) then Inr (xs ! nat i)
      else if i < 0 \<and> - int (length xs) \<le> i then Inr (xs ! nat (int (length xs) + i))
      else Inl IndexError)"

section \<open>Trial outcome evaluation (follow\_the\_light.py)\<close>

text \<open>
  \<^verbatim>\<open>find_first_occurrence(event_list, targets)\<close>: the loop over the event list
  returns at the first event that is in \<^verbatim>\<open>targets\<close>, and \<^verbatim>\<open>"NaN"\<close> after the
  loop.
\<close>

fun find_first_occurrence :: "string list \<Rightarrow> string list \<Rightarrow> string" where
  "find_first_occurrence [] targets = ''NaN''"
| "find_first_occurrence (event # event_list) targets =
     (if event \<in> set targets then event
      else find_first_occurrence event_list targets)"

section \<open>Trial state machines (habituation.py, follow\_the\_light.py)\<close>

text \<open>
  Modelled from the spec: the event and output vocabularies and
  \<^verbatim>\<open>bpod.add_state\<close> belong to the framework the tasks import. Only the
  members the two tasks name are listed; an output action is either a pair of a
  channel and an intensity, \<^verbatim>\<open>(Output.PWM1, 255)\<close>, or a bare output,
  \<^verbatim>\<open>Output.Valve1\<close>. A state has a name, a timer, its output actions and the
  dictionary from events to next-state names; the graph of a trial is the list
  of the states added, the first one being the entry state.
\<close>

datatype Event = Port1In | Port2In | Port3In | Tup

datatype Output = PWM1 | PWM2 | PWM3 | Valve1 | Valve3

datatype action = Level Output val | Switch Output

record bpod_state =
  state_name :: string
  state_timer :: val
  state_change_conditions :: "(Event \<times> string) list"
  output_actions :: "action list"

type_synonym graph = "bpod_state list"

definition add_state ::
  "graph \<Rightarrow> string \<Rightarrow> val \<Rightarrow> (Event \<times> string) list \<Rightarrow> action list \<Rightarrow> graph" where
  "add_state bpod name timer conditions actions =
     bpod @ [\<lparr>state_name = name, state_timer = timer,
              state_change_conditions = conditions, output_actions = actions\<rparr>]"

text \<open>
  The attributes the two tasks set on \<^verbatim>\<open>self\<close>. An attribute that was not
  assigned yet is \<open>None\<close>, and reading it raises \<^verbatim>\<open>AttributeError\<close>.
\<close>

record task_object =
  left_valve_opening_time :: "val option"
  right_valve_opening_time :: "val option"
  punish_condition :: "string option"
  this_trial_type :: "string option"
  stimulus_state_output :: "action list option"
  left_poke_action :: "string option"
  right_poke_action :: "string option"
  valve_to_open :: "Output option"
  valve_opening_time :: "val option"

definition new_task :: task_object where
  "new_task = \<lparr>left_valve_opening_time = None, right_valve_opening_time = None,
                punish_condition = None, this_trial_type = None,
                stimulus_state_output = None, left_poke_action = None,
                right_poke_action = None, valve_to_open = None,
                valve_opening_time = None\<rparr>"

definition self_attr :: "string \<Rightarrow> 'a option \<Rightarrow> error + 'a" where
  "self_attr name v = (case v of None \<Rightarrow> Inl (AttributeError name) | Some x \<Rightarrow> Inr x)"

text \<open>
  \<^verbatim>\<open>random.choice(seq)\<close>, with the draw of the generator as the argument
  \<open>r\<close>: an element of a non-empty sequence, \<^verbatim>\<open>IndexError\<close> on an empty one,
  \<^verbatim>\<open>TypeError\<close> on a value without a length.
\<close>

fun random_choice :: "nat \<Rightarrow> val \<Rightarrow> error + string" where
  "random_choice r (StrList ts) =
     (if ts = [] then Inl IndexError else Inr (ts ! (r mod length ts)))"
| "random_choice r (Str cs) =
     (if cs = [] then Inl IndexError else Inr [cs ! (r mod length cs)])"
| "random_choice r _ = Inl TypeError"

subsection \<open>Habituation\<close>

text \<open>
  The valve calibration \<^verbatim>\<open>water_calibration.get_valve_time(port, volume)\<close> is
  a parameter: it returns the opening time or raises.
\<close>

definition Habituation_start ::
  "(nat \<Rightarrow> val \<Rightarrow> error + val) \<Rightarrow> settings \<Rightarrow> task_object \<Rightarrow> error + task_object" where
  "Habituation_start get_valve_time s self =
     bind (getattr s ''reward_amount_ml'') (\<lambda>volume_left.
     bind (get_valve_time 1 volume_left) (\<lambda>left.
     bind (getattr s ''reward_amount_ml'') (\<lambda>volume_right.
     bind (get_valve_time 3 volume_right) (\<lambda>right.
     Inr (self\<lparr>left_valve_opening_time := Some left,
               right_valve_opening_time := Some right\<rparr>)))))"

definition Habituation_create_trial :: "settings \<Rightarrow> task_object \<Rightarrow> error + graph" where
  "Habituation_create_trial s self =
     bind (getattr s ''light_intensity_high'') (\<lambda>center.
     let bpod = add_state [] ''ready_to_initiate'' (Num 0)
                  [(Port2In, ''stimulus_state'')] [Level PWM2 center] in
     bind (getattr s ''light_intensity_high'') (\<lambda>left_light.
     bind (getattr s ''light_intensity_high'') (\<lambda>right_light.
     let bpod = add_state bpod ''stimulus_state'' (Num 0)
                  [(Port1In, ''reward_state_left''), (Port3In, ''reward_state_right'')]
                  [Level PWM1 left_light, Level PWM3 right_light] in
     bind (self_attr ''left_valve_opening_time'' (left_valve_opening_time self)) (\<lambda>left_time.
     let bpod = add_state bpod ''reward_state_left'' left_time
                  [(Tup, ''exit'')] [Switch Valve1] in
     bind (self_attr ''right_valve_opening_time'' (right_valve_opening_time self)) (\<lambda>right_time.
     Inr (add_state bpod ''reward_state_right'' right_time
            [(Tup, ''exit'')] [Switch Valve3]))))))"

text \<open>
  Modelled from the spec: \<^verbatim>\<open>register_value(name, value)\<close> belongs to the
  framework; it stores one named value in the record of the trial.
\<close>

definition register_value :: "(string \<rightharpoonup> val) \<Rightarrow> string \<Rightarrow> val \<Rightarrow> (string \<rightharpoonup> val)" where
  "register_value trial_record name v = trial_record(name \<mapsto> v)"

definition Habituation_after_trial :: "settings \<Rightarrow> error + (string \<rightharpoonup> val)" where
  "Habituation_after_trial s =
     bind (getattr s ''reward_amount_ml'') (\<lambda>water.
     Inr (register_value Map.empty ''water'' water))"

subsection \<open>FollowTheLight\<close>

definition FollowTheLight_start ::
  "(nat \<Rightarrow> val \<Rightarrow> error + val) \<Rightarrow> settings \<Rightarrow> task_object \<Rightarrow> error + task_object" where
  "FollowTheLight_start get_valve_time s self =
     bind (getattr s ''reward_amount_ml'') (\<lambda>volume_left.
     bind (get_valve_time 1 volume_left) (\<lambda>left.
     bind (getattr s ''reward_amount_ml'') (\<lambda>volume_right.
     bind (get_valve_time 3 volume_right) (\<lambda>right.
     bind (getattr s ''stage'') (\<lambda>stage.
     Inr (self\<lparr>left_valve_opening_time := Some left,
               right_valve_opening_time := Some right,
               punish_condition :=
                 Some (if py_eq stage (Num 1) then ''stimulus_state'' else ''punish_state'')\<rparr>))))))"

text \<open>
  The first half of \<^verbatim>\<open>create_trial\<close> (lines 76 to 101): the outputs of the
  stimulus state and the targets of the two side pokes, from the trial type. A
  trial type that names neither side assigns nothing but the empty output
  list, so the other attributes keep what the previous trial left.
\<close>

definition set_trial_variables :: "settings \<Rightarrow> task_object \<Rightarrow> string \<Rightarrow> error + task_object" where
  "set_trial_variables s self trial_type =
     (if contains ''left'' trial_type then
        bind (getattr s ''light_intensity_high'') (\<lambda>high.
        bind (if contains ''hard'' trial_type
              then bind (getattr s ''light_intensity_low'') (\<lambda>low.
                     Inr [Level PWM1 high, Level PWM3 low])
              else Inr [Level PWM1 high]) (\<lambda>lights.
        bind (self_attr ''left_valve_opening_time'' (left_valve_opening_time self)) (\<lambda>time.
        bind (self_attr ''punish_condition'' (punish_condition self)) (\<lambda>punish.
        Inr (self\<lparr>stimulus_state_output := Some lights,
                  left_poke_action := Some ''reward_state'',
                  valve_to_open := Some Valve1,
                  valve_opening_time := Some time,
                  right_poke_action := Some punish\<rparr>)))))
      else if contains ''right'' trial_type then
        bind (getattr s ''light_intensity_high'') (\<lambda>high.
        bind (if contains ''hard'' trial_type
              then bind (getattr s ''light_intensity_low'') (\<lambda>low.
                     Inr [Level PWM3 high, Level PWM1 low])
              else Inr [Level PWM3 high]) (\<lambda>lights.
        bind (self_attr ''punish_condition'' (punish_condition self)) (\<lambda>punish.
        bind (self_attr ''right_valve_opening_time'' (right_valve_opening_time self)) (\<lambda>time.
        Inr (self\<lparr>stimulus_state_output := Some lights,
                  left_poke_action := Some punish,
                  right_poke_action := Some ''reward_state'',
                  valve_to_open := Some Valve3,
                  valve_opening_time := Some time\<rparr>)))))
      else Inr (self\<lparr>stimulus_state_output := Some []\<rparr>))"

text \<open>
  The second half (lines 104 to 147): the five \<^verbatim>\<open>add_state\<close> calls, each
  reading its arguments in the order they are written.
\<close>

definition add_trial_states :: "settings \<Rightarrow> task_object \<Rightarrow> error + graph" where
  "add_trial_states s self =
     bind (getattr s ''light_intensity_high'') (\<lambda>center.
     let bpod = add_state [] ''ready_to_initiate'' (Num 0)
                  [(Port2In, ''stimulus_state'')] [Level PWM2 center] in
     bind (getattr s ''timer_for_response'') (\<lambda>timer.
     bind (self_attr ''left_poke_action'' (left_poke_action self)) (\<lambda>left.
     bind (self_attr ''right_poke_action'' (right_poke_action self)) (\<lambda>right.
     bind (self_attr ''stimulus_state_output'' (stimulus_state_output self)) (\<lambda>lights.
     let bpod = add_state bpod ''stimulus_state'' timer
                  [(Port1In, left), (Port3In, right), (Tup, ''exit'')] lights in
     bind (self_attr ''valve_opening_time'' (valve_opening_time self)) (\<lambda>time.
     bind (self_attr ''valve_to_open'' (valve_to_open self)) (\<lambda>valve.
     let bpod = add_state bpod ''reward_state'' time [(Tup, ''iti_state'')] [Switch valve] in
     bind (getattr s ''punishment_time'') (\<lambda>punishment.
     let bpod = add_state bpod ''punish_state'' punishment [(Tup, ''iti_state'')] [] in
     bind (getattr s ''iti_time'') (\<lambda>iti.
     Inr (add_state bpod ''iti_state'' iti [(Tup, ''exit'')] []))))))))))"

definition FollowTheLight_create_trial ::
  "settings \<Rightarrow> task_object \<Rightarrow> nat \<Rightarrow> error + (task_object \<times> graph)" where
  "FollowTheLight_create_trial s self r =
     bind (getattr s ''trial_types'') (\<lambda>trial_types.
     bind (random_choice r trial_types) (\<lambda>trial_type.
     bind (set_trial_variables s (self\<lparr>this_trial_type := Some trial_type\<rparr>) trial_type) (\<lambda>self.
     bind (add_trial_states s self) (\<lambda>bpod.
     Inr (self, bpod)))))"

text \<open>
  \<^verbatim>\<open>after_trial\<close>: the first side poke of the event log is compared with the
  trial type, then the three values are registered. Python's \<^verbatim>\<open>and\<close> reads
  \<^verbatim>\<open>self.this_trial_type\<close> only when the comparison before it holds.
\<close>

definition FollowTheLight_after_trial ::
  "settings \<Rightarrow> task_object \<Rightarrow> string list \<Rightarrow> error + (string \<rightharpoonup> val)" where
  "FollowTheLight_after_trial s self ordered_list_of_events =
     (let first_poke = find_first_occurrence ordered_list_of_events [''Port1In'', ''Port3In'']
      in
      bind (if first_poke = ''Port1In''
            then bind (self_attr ''this_trial_type'' (this_trial_type self)) (\<lambda>trial_type.
                   Inr (contains ''left'' trial_type))
            else Inr False) (\<lambda>left_correct.
      bind (if left_correct then Inr True
            else if first_poke = ''Port3In''
            then bind (self_attr ''this_trial_type'' (this_trial_type self)) (\<lambda>trial_type.
                   Inr (contains ''right'' trial_type))
            else Inr False) (\<lambda>correct.
      bind (getattr s ''reward_amount_ml'') (\<lambda>water.
      let trial_record = register_value Map.empty ''water'' water in
      bind (self_attr ''this_trial_type'' (this_trial_type self)) (\<lambda>trial_type.
      let trial_record = register_value trial_record ''trial_type'' (Str trial_type) in
      Inr (register_value trial_record ''correct'' (Bool correct)))))))"

text \<open>
  The life cycle the framework documents: \<^verbatim>\<open>start\<close> is called once when the
  task starts, \<^verbatim>\<open>create_trial\<close> once per trial. \<open>in_session cal s0 self\<close>
  holds for the task objects that arise in a session started with the settings
  \<open>s0\<close>; the settings read by each trial are arbitrary.
\<close>

inductive in_session ::
  "(nat \<Rightarrow> val \<Rightarrow> error + val) \<Rightarrow> settings \<Rightarrow> task_object \<Rightarrow> bool"
  for cal :: "nat \<Rightarrow> val \<Rightarrow> error + val" and s0 :: settings where
  started: "FollowTheLight_start cal s0 new_task = Inr self \<Longrightarrow> in_session cal s0 self"
| next_trial: "in_session cal s0 self \<Longrightarrow>
               FollowTheLight_create_trial s self r = Inr (self', bpod) \<Longrightarrow>
               in_session cal s0 self'"

subsection \<open>Reading a graph\<close>

text \<open>
  Modelled from the spec: the executor is outside the repository. A transition
  of a graph leads from a named state, on one of the events of its dictionary,
  to the next-state name; a state is reachable from another through a chain of
  transitions. A graph has no dangling edge when every next-state name is the
  terminal marker \<^verbatim>\<open>exit\<close> or the name of a state of the graph.
\<close>

definition transitions :: "graph \<Rightarrow> (string \<times> Event \<times> string) list" where
  "transitions g =
     concat (map (\<lambda>st. map (\<lambda>(ev, target). (state_name st, ev, target))
                           (state_change_conditions st)) g)"

inductive reachable :: "graph \<Rightarrow> string \<Rightarrow> string \<Rightarrow> bool" for g :: graph and a :: string where
  here: "reachable g a a"
| step: "reachable g a b \<Longrightarrow> (b, ev, c) \<in> set (transitions g) \<Longrightarrow> reachable g a c"

code_pred reachable .

definition resolved :: "graph \<Rightarrow> bool" where
  "resolved g =
     list_all (\<lambda>(source, ev, target). target = ''exit'' \<or> target \<in> set (map state_name g))
       (transitions g)"

section \<open>Session history and the training controller (training\_protocol.py)\<close>

text \<open>
  \<^verbatim>\<open>default_training_settings\<close> assigns the initial attributes of a new
  subject on the settings object it is given.
\<close>

definition default_training_settings :: "settings \<Rightarrow> settings" where
  "default_training_settings s = s
     (''next_task'' \<mapsto> Str ''Habituation'',
      ''refractary_period'' \<mapsto> Num (3600 * 4),
      ''minimum_duration'' \<mapsto> Num 600,
      ''maximum_duration'' \<mapsto> Num 900,
      ''reward_amount_ml'' \<mapsto> Num (8 / 100),
      ''stage'' \<mapsto> Num 1,
      ''light_intensity_high'' \<mapsto> Num 255,
      ''light_intensity_low'' \<mapsto> Num 50,
      ''trial_types'' \<mapsto> StrList [''left_easy'', ''right_easy'', ''left_hard'', ''right_hard''],
      ''punishment_time'' \<mapsto> Num 1,
      ''iti_time'' \<mapsto> Num 2,
      ''response_time'' \<mapsto> Num 10)"

text \<open>
  \<^verbatim>\<open>self.df\<close> holds one row per session, in chronological order. The
  controller reads three cells of a row: the task name, the series of trial
  numbers (\<^verbatim>\<open>["trial"].iloc[-1]\<close>) and the series of trial outcomes
  (\<^verbatim>\<open>["correct"].mean()\<close>).
\<close>

record session =
  task :: string
  trial :: "int list"
  correct :: "bool list"

text \<open>
  \<^verbatim>\<open>Series.mean()\<close> of a boolean series is the fraction of \<^verbatim>\<open>True\<close>; of an
  empty series it is NaN (\<open>None\<close>), and every comparison with NaN is false.
  A quotient \<open>k / n\<close> below \<open>17 / 20\<close> is below it by at least \<open>1 / (20 * n)\<close>,
  far more than the rounding of a double for any number of trials a session can
  hold, so the comparison of the exact quotient with \<open>85 / 100\<close> decides as the
  floating-point comparison with \<^verbatim>\<open>0.85\<close> does.
\<close>

definition mean :: "bool list \<Rightarrow> rat option" where
  "mean xs = (if xs = [] then None
              else Some (of_nat (length (filter (\<lambda>b. b) xs)) / of_nat (length xs)))"

fun nan_ge :: "rat option \<Rightarrow> rat \<Rightarrow> bool" where
  "nan_ge None t = False"
| "nan_ge (Some x) t = (t \<le> x)"

definition update_training_settings :: "string \<Rightarrow> session list \<Rightarrow> settings \<Rightarrow> error + settings" where
  "update_training_settings last_task df s =
     (if last_task = ''Habituation'' then
        (let df_habituation = filter (\<lambda>row. task row = ''Habituation'') df in
         if 2 \<le> length df_habituation then
           bind (iloc df_habituation (- 1)) (\<lambda>df_last_session.
           bind (iloc (trial df_last_session) (- 1)) (\<lambda>trials_last_session.
           if 100 \<le> trials_last_session then
             Inr (s(''next_task'' \<mapsto> Str ''FollowTheLight'',
                    ''reward_amount_ml'' \<mapsto> Num (7 / 100)))
           else Inr s))
         else Inr s)
      else if last_task = ''FollowTheLight'' then
        (let df_follow_the_light = filter (\<lambda>row. task row = ''FollowTheLight'') df in
         if 2 \<le> length df_follow_the_light then
           bind (iloc df_follow_the_light (- 1)) (\<lambda>df_last_session.
           bind (iloc df_follow_the_light (- 2)) (\<lambda>df_previous_session.
           let performance_last_session = mean (correct df_last_session);
               performance_previous_session = mean (correct df_previous_session) in
           bind (iloc (trial df_last_session) (- 1)) (\<lambda>trials_last_session.
           bind (iloc (trial df_previous_session) (- 1)) (\<lambda>trials_previous_session.
           if nan_ge performance_last_session (85 / 100) \<and>
              nan_ge performance_previous_session (85 / 100) \<and>
              100 \<le> trials_last_session \<and>
              100 \<le> trials_previous_session
           then Inr (s(''stage'' \<mapsto> Num 2, ''reward_amount_ml'' \<mapsto> Num (5 / 100)))
           else Inr s))))
         else Inr s)
      else Inr s)"

subsection \<open>The advancement criterion and example histories\<close>

text \<open>
  The advancement criterion in the words of the specification: a session clears
  the thresholds when it has at least 100 trials and a trial-level accuracy
  (the mean of correctness over its trials) of at least 0.85.
\<close>

definition clears_thresholds :: "session \<Rightarrow> bool" where
  "clears_thresholds row =
     (trial row \<noteq> [] \<and> 100 \<le> last (trial row) \<and> correct row \<noteq> [] \<and>
      85 / 100 \<le> (of_nat (length (filter (\<lambda>b. b) (correct row))) / of_nat (length (correct row)) :: rat))"

text \<open>
  Example rows for the history: a session of task \<open>t\<close> with trials numbered
  \<open>1..n\<close>, of which the first \<open>k\<close> are correct.
\<close>

definition example_session :: "string \<Rightarrow> nat \<Rightarrow> nat \<Rightarrow> session" where
  "example_session t n k =
     \<lparr>task = t, trial = map int [1..<Suc n],
      correct = replicate k True @ replicate (n - k) False\<rparr>"

section \<open>Session invariant and example inputs of the tasks\<close>

text \<open>
  The wiring invariant of a session: \<^verbatim>\<open>punish_condition\<close> holds the target
  chosen by \<^verbatim>\<open>start\<close>, and the targets of the two side pokes are either
  not assigned yet or the reward state on one side and that target on the
  other.
\<close>

definition wired :: "string \<Rightarrow> task_object \<Rightarrow> bool" where
  "wired punish self \<longleftrightarrow>
     punish_condition self = Some punish \<and>
     ((left_poke_action self = None \<and> right_poke_action self = None) \<or>
      (left_poke_action self = Some ''reward_state'' \<and> right_poke_action self = Some punish) \<or>
      (left_poke_action self = Some punish \<and> right_poke_action self = Some ''reward_state''))"

text \<open>
  Example inputs: a calibration that answers 0.1 s for every valve, the initial
  settings of a subject with a given stage and with the attribute
  \<^verbatim>\<open>timer_for_response\<close> set by hand, and the task object \<^verbatim>\<open>start\<close>
  returns for them.
\<close>

definition example_calibration :: "nat \<Rightarrow> val \<Rightarrow> error + val" where
  "example_calibration port volume = Inr (Num (1 / 10))"

definition example_settings :: "rat \<Rightarrow> settings" where
  "example_settings stage =
     (default_training_settings Map.empty)
       (''stage'' \<mapsto> Num stage, ''timer_for_response'' \<mapsto> Num 10)"

definition example_started :: "rat \<Rightarrow> task_object" where
  "example_started stage =
     new_task\<lparr>left_valve_opening_time := Some (Num (1 / 10)),
              right_valve_opening_time := Some (Num (1 / 10)),
              punish_condition := Some (if stage = 1 then ''stimulus_state'' else ''punish_state'')\<rparr>"

text \<open>
  The task object and the graph of a stage 2 trial of type \<^verbatim>\<open>left_easy\<close>
  (draw 0 of the four initial trial types) under the example settings.
\<close>

definition example_left_easy_trial :: task_object where
  "example_left_easy_trial =
     (example_started 2)
       \<lparr>this_trial_type := Some ''left_easy'',
        stimulus_state_output := Some [Level PWM1 (Num 255)],
        left_poke_action := Some ''reward_state'',
        right_poke_action := Some ''punish_state'',
        valve_to_open := Some Valve1,
        valve_opening_time := Some (Num (1 / 10))\<rparr>"

definition example_left_easy_graph :: graph where
  "example_left_easy_graph =
     [\<lparr>state_name = ''ready_to_initiate'', state_timer = Num 0,
       state_change_conditions = [(Port2In, ''stimulus_state'')],
       output_actions = [Level PWM2 (Num 255)]\<rparr>,
      \<lparr>state_name = ''stimulus_state'', state_timer = Num 10,
       state_change_conditions =
         [(Port1In, ''reward_state''), (Port3In, ''punish_state''), (Tup, ''exit'')],
       output_actions = [Level PWM1 (Num 255)]\<rparr>,
      \<lparr>state_name = ''reward_state'', state_timer = Num (1 / 10),
       state_change_conditions = [(Tup, ''iti_state'')],
       output_actions = [Switch Valve1]\<rparr>,
      \<lparr>state_name = ''punish_state'', state_timer = Num 1,
       state_change_conditions = [(Tup, ''iti_state'')],
       output_actions = []\<rparr>,
      \<lparr>state_name = ''iti_state'', state_timer = Num 2,
       state_change_conditions = [(Tup, ''exit'')],
       output_actions = []\<rparr>]"

section \<open>Properties of the outcome scan\<close>

lemma find_first_occurrence_none:
  "set event_list \<inter> set targets = {} \<Longrightarrow> find_first_occurrence event_list targets = ''NaN''"
  by (induction event_list) auto

lemma find_first_occurrence_split:
  "set event_list \<inter> set targets \<noteq> {} \<Longrightarrow>
   \<exists>before after.
     event_list = before @ find_first_occurrence event_list targets # after \<and>
     find_first_occurrence event_list targets \<in> set targets \<and>
     set before \<inter> set targets = {}"
proof (induction event_list)
  case Nil
  then show ?case by simp
next
  case (Cons event event_list)
  show ?case
  proof (cases "event \<in> set targets")
    case True
    then have "event # event_list = [] @ find_first_occurrence (event # event_list) targets # event_list"
      by simp
    with True show ?thesis
      by (metis empty_set inf_bot_left find_first_occurrence.simps(2))
  next
    case False
    with Cons.prems have "set event_list \<inter> set targets \<noteq> {}" by auto
    from Cons.IH [OF this] obtain before after where
      h: "event_list = before @ find_first_occurrence event_list targets # after"
         "find_first_occurrence event_list targets \<in> set targets"
         "set before \<inter> set targets = {}"
      by blast
    from False h(1) have "event # event_list =
        (event # before) @ find_first_occurrence (event # event_list) targets # after"
      by simp
    moreover from False h(2) have "find_first_occurrence (event # event_list) targets \<in> set targets"
      by simp
    moreover from False h(3) have "set (event # before) \<inter> set targets = {}"
      by simp
    ultimately show ?thesis by blast
  qed
qed

text \<open>
  C6. The scan of the outcome evaluator is a linear first-match search that
  keeps the order of the log: when some event of the log is a target, the
  result is the target at the earliest position (every event before it is not
  a target); when no event is a target, the result is the sentinel
  \<^verbatim>\<open>"NaN"\<close>. On the log \<^verbatim>\<open>["Port2In","Port3In","Port1In"]\<close> with targets
  \<^verbatim>\<open>Port1In, Port3In\<close> the result is \<^verbatim>\<open>"Port3In"\<close>.
\<close>

theorem find_first_occurrence_first_match:
  "(set event_list \<inter> set targets \<noteq> {} \<longrightarrow>
      (\<exists>before after.
         event_list = before @ find_first_occurrence event_list targets # after \<and>
         find_first_occurrence event_list targets \<in> set targets \<and>
         set before \<inter> set targets = {})) \<and>
   (set event_list \<inter> set targets = {} \<longrightarrow>
      find_first_occurrence event_list targets = ''NaN'') \<and>
   find_first_occurrence [''Port2In'', ''Port3In'', ''Port1In''] [''Port1In'', ''Port3In'']
     = ''Port3In''"
  using find_first_occurrence_split [of event_list targets]
        find_first_occurrence_none [of event_list targets]
  by simp

theorem find_first_occurrence_first_match_witness:
  "set [''Port2In'', ''Tup'', ''Port3In'', ''Port1In''] \<inter> set [''Port1In'', ''Port3In''] \<noteq> {} \<and>
   (\<exists>before after.
      [''Port2In'', ''Tup'', ''Port3In'', ''Port1In''] = before @ ''Port3In'' # after \<and>
      set before \<inter> set [''Port1In'', ''Port3In''] = {}) \<and>
   set [''Port2In'', ''Tup''] \<inter> set [''Port1In'', ''Port3In''] = {} \<and>
   find_first_occurrence [''Port2In'', ''Tup''] [''Port1In'', ''Port3In''] = ''NaN''"
  using find_first_occurrence_first_match
          [of "[''Port2In'', ''Tup'', ''Port3In'', ''Port1In'']" "[''Port1In'', ''Port3In'']"]
        find_first_occurrence_first_match
          [of "[''Port2In'', ''Tup'']" "[''Port1In'', ''Port3In'']"]
  by simp

section \<open>Properties of the training controller\<close>

lemma bind_Inr [simp]: "bind (Inr x) f = f x" by (simp add: bind_def)
lemma bind_Inl [simp]: "bind (Inl e) f = Inl e" by (simp add: bind_def)

lemma iloc_last: "xs \<noteq> [] \<Longrightarrow> iloc xs (- 1) = Inr (last xs)"
  by (cases xs rule: rev_cases) (auto simp: iloc_def nth_append)

lemma iloc_Nil: "iloc [] i = Inl IndexError"
  by (simp add: iloc_def)

lemma iloc_second_last: "2 \<le> length xs \<Longrightarrow> iloc xs (- 2) = Inr (xs ! (length xs - 2))"
  by (auto simp: iloc_def nat_diff_distrib' intro!: arg_cong [where f="nth xs"])

lemma update_habituation:
  assumes "2 \<le> length (filter (\<lambda>row. task row = ''Habituation'') df)"
  shows "update_training_settings ''Habituation'' df s =
     (let latest = last (filter (\<lambda>row. task row = ''Habituation'') df) in
      if trial latest = [] then Inl IndexError
      else if 100 \<le> last (trial latest)
        then Inr (s(''next_task'' \<mapsto> Str ''FollowTheLight'',
                    ''reward_amount_ml'' \<mapsto> Num (7 / 100)))
        else Inr s)"
proof -
  from assms have ne: "filter (\<lambda>row. task row = ''Habituation'') df \<noteq> []" by auto
  show ?thesis
    using assms
    by (simp add: update_training_settings_def Let_def iloc_last [OF ne] iloc_last iloc_Nil)
qed

lemma update_follow_the_light:
  assumes "2 \<le> length (filter (\<lambda>row. task row = ''FollowTheLight'') df)"
  shows "update_training_settings ''FollowTheLight'' df s =
     (let sessions = filter (\<lambda>row. task row = ''FollowTheLight'') df;
          latest = last sessions; previous = sessions ! (length sessions - 2) in
      if trial latest = [] \<or> trial previous = [] then Inl IndexError
      else if nan_ge (mean (correct latest)) (85 / 100) \<and>
              nan_ge (mean (correct previous)) (85 / 100) \<and>
              100 \<le> last (trial latest) \<and> 100 \<le> last (trial previous)
        then Inr (s(''stage'' \<mapsto> Num 2, ''reward_amount_ml'' \<mapsto> Num (5 / 100)))
        else Inr s)"
proof -
  from assms have ne: "filter (\<lambda>row. task row = ''FollowTheLight'') df \<noteq> []" by auto
  show ?thesis
  proof (cases "trial (last (filter (\<lambda>row. task row = ''FollowTheLight'') df)) = []")
    case True
    with assms show ?thesis
      by (simp add: update_training_settings_def Let_def iloc_last [OF ne]
                    iloc_second_last iloc_Nil)
  next
    case False
    with assms show ?thesis
      by (simp add: update_training_settings_def Let_def iloc_last [OF ne]
                    iloc_second_last iloc_last iloc_Nil)
  qed
qed

lemma clears_thresholds_iff:
  "clears_thresholds row \<longleftrightarrow>
     trial row \<noteq> [] \<and> 100 \<le> last (trial row) \<and> nan_ge (mean (correct row)) (85 / 100)"
  by (auto simp: clears_thresholds_def mean_def)

lemma mean_replicate:
  "0 < a + b \<Longrightarrow> mean (replicate a True @ replicate b False) = Some (of_nat a / of_nat (a + b))"
  by (auto simp: mean_def)

lemma example_session_simps:
  "task (example_session t n k) = t"
  "0 < n \<Longrightarrow> trial (example_session t n k) \<noteq> []"
  "0 < n \<Longrightarrow> last (trial (example_session t n k)) = int n"
  "0 < n \<Longrightarrow> k \<le> n \<Longrightarrow> mean (correct (example_session t n k)) = Some (of_nat k / of_nat n)"
  by (simp_all add: example_session_def last_map mean_replicate)

text \<open>
  C9. When fewer than two sessions of the task named by \<^verbatim>\<open>last_task\<close> are
  recorded, or \<^verbatim>\<open>last_task\<close> is neither \<^verbatim>\<open>Habituation\<close> nor
  \<^verbatim>\<open>FollowTheLight\<close>, the update raises nothing and returns the settings it
  was given: every attribute, whatever its name, keeps its value.
\<close>

theorem update_without_history_is_identity:
  "length (filter (\<lambda>row. task row = last_task) df) < 2 \<or>
     (last_task \<noteq> ''Habituation'' \<and> last_task \<noteq> ''FollowTheLight'')
   \<Longrightarrow> update_training_settings last_task df s = Inr s"
  by (auto simp: update_training_settings_def Let_def)

theorem update_without_history_is_identity_witness:
  "length (filter (\<lambda>row. task row = ''FollowTheLight'')
       [example_session ''Habituation'' 120 0, example_session ''Habituation'' 130 0,
        example_session ''FollowTheLight'' 150 140]) < 2 \<and>
   update_training_settings ''FollowTheLight''
       [example_session ''Habituation'' 120 0, example_session ''Habituation'' 130 0,
        example_session ''FollowTheLight'' 150 140]
       (default_training_settings Map.empty) = Inr (default_training_settings Map.empty) \<and>
   ''Simple'' \<noteq> ''Habituation'' \<and> ''Simple'' \<noteq> ''FollowTheLight'' \<and>
   update_training_settings ''Simple''
       [example_session ''Habituation'' 120 0, example_session ''Habituation'' 130 0]
       (default_training_settings Map.empty) = Inr (default_training_settings Map.empty)"
  using update_without_history_is_identity
          [of "''FollowTheLight''"
              "[example_session ''Habituation'' 120 0, example_session ''Habituation'' 130 0,
                example_session ''FollowTheLight'' 150 140]"
              "default_training_settings Map.empty"]
        update_without_history_is_identity
          [of "''Simple''"
              "[example_session ''Habituation'' 120 0, example_session ''Habituation'' 130 0]"
              "default_training_settings Map.empty"]
  by (simp add: example_session_simps)

text \<open>
  C3 (amended). With \<^verbatim>\<open>last_task = "Habituation"\<close> and at least two
  Habituation sessions recorded, the update reads the last trial number of the
  most recent Habituation session and nothing else of the history: any other
  history with the same most recent Habituation session gives the same result,
  so counts are not accumulated over sessions. Exactly when that number is at
  least 100 the update sets \<^verbatim>\<open>next_task\<close> to \<^verbatim>\<open>FollowTheLight\<close> and
  assigns the constant 0.07 to \<^verbatim>\<open>reward_amount_ml\<close>; this lowers the reward
  whenever the reward before was above 0.07, as the initial 0.08 is. Below 100
  the settings are returned as they were, and a most recent session without
  any trial makes \<^verbatim>\<open>.iloc[-1]\<close> raise. With 120 trials in the latest
  session the next task is \<^verbatim>\<open>FollowTheLight\<close> and the reward is 0.07.
\<close>

theorem habituation_rule_reads_latest_session:
  assumes "2 \<le> length (filter (\<lambda>row. task row = ''Habituation'') df)"
      and "latest = last (filter (\<lambda>row. task row = ''Habituation'') df)"
  shows "(trial latest \<noteq> [] \<and> 100 \<le> last (trial latest) \<longrightarrow>
            update_training_settings ''Habituation'' df s =
              Inr (s(''next_task'' \<mapsto> Str ''FollowTheLight'',
                     ''reward_amount_ml'' \<mapsto> Num (7 / 100)))) \<and>
         (trial latest \<noteq> [] \<and> last (trial latest) < 100 \<longrightarrow>
            update_training_settings ''Habituation'' df s = Inr s) \<and>
         (trial latest = [] \<longrightarrow>
            update_training_settings ''Habituation'' df s = Inl IndexError) \<and>
         (\<forall>df'. 2 \<le> length (filter (\<lambda>row. task row = ''Habituation'') df') \<and>
                last (filter (\<lambda>row. task row = ''Habituation'') df') = latest \<longrightarrow>
            update_training_settings ''Habituation'' df' s =
            update_training_settings ''Habituation'' df s) \<and>
         (trial latest \<noteq> [] \<and> 100 \<le> last (trial latest) \<longrightarrow>
            (\<forall>r. s ''reward_amount_ml'' = Some (Num r) \<and> 7 / 100 < r \<longrightarrow>
               (\<exists>s' r'. update_training_settings ''Habituation'' df s = Inr s' \<and>
                   s' ''next_task'' = Some (Str ''FollowTheLight'') \<and>
                   s' ''reward_amount_ml'' = Some (Num r') \<and> r' < r))) \<and>
         (trial latest \<noteq> [] \<and> last (trial latest) = 120 \<longrightarrow>
            update_training_settings ''Habituation'' df s =
              Inr (s(''next_task'' \<mapsto> Str ''FollowTheLight'',
                     ''reward_amount_ml'' \<mapsto> Num (7 / 100))))"
proof -
  let ?upd = "update_training_settings ''Habituation'' df s"
  let ?new = "s(''next_task'' \<mapsto> Str ''FollowTheLight'', ''reward_amount_ml'' \<mapsto> Num (7 / 100))"
  have eq: "?upd =
     (if trial latest = [] then Inl IndexError
      else if 100 \<le> last (trial latest) then Inr ?new else Inr s)"
    using assms by (simp add: update_habituation Let_def)
  have other: "update_training_settings ''Habituation'' df' s = ?upd"
    if "2 \<le> length (filter (\<lambda>row. task row = ''Habituation'') df')"
       "last (filter (\<lambda>row. task row = ''Habituation'') df') = latest" for df'
    using that eq by (simp add: update_habituation Let_def)
  have yes: "?upd = Inr ?new" if "trial latest \<noteq> [] \<and> 100 \<le> last (trial latest)"
    using that eq by simp
  have lower: "\<exists>s' r'. ?upd = Inr s' \<and>
                  s' ''next_task'' = Some (Str ''FollowTheLight'') \<and>
                  s' ''reward_amount_ml'' = Some (Num r') \<and> r' < r"
    if "trial latest \<noteq> [] \<and> 100 \<le> last (trial latest)" "7 / 100 < r" for r
  proof -
    have "?new ''next_task'' = Some (Str ''FollowTheLight'')"
      and "?new ''reward_amount_ml'' = Some (Num (7 / 100))"
      by simp_all
    with yes [OF that(1)] that(2) show ?thesis by blast
  qed
  have ex: "?upd = Inr ?new" if "trial latest \<noteq> [] \<and> last (trial latest) = 120"
    using that by (intro yes) simp
  from eq other yes lower ex show ?thesis by simp
qed

theorem habituation_rule_reads_latest_session_witness:
  "2 \<le> length (filter (\<lambda>row. task row = ''Habituation'')
          [example_session ''Habituation'' 80 0, example_session ''Habituation'' 120 0]) \<and>
   last (trial (example_session ''Habituation'' 120 0)) = 120 \<and>
   default_training_settings Map.empty ''reward_amount_ml'' = Some (Num (8 / 100)) \<and>
   (7 / 100 :: rat) < 8 / 100 \<and>
   update_training_settings ''Habituation''
       [example_session ''Habituation'' 80 0, example_session ''Habituation'' 120 0]
       (default_training_settings Map.empty) =
     Inr ((default_training_settings Map.empty)
            (''next_task'' \<mapsto> Str ''FollowTheLight'', ''reward_amount_ml'' \<mapsto> Num (7 / 100))) \<and>
   2 \<le> length (filter (\<lambda>row. task row = ''Habituation'')
          [example_session ''Habituation'' 60 0, example_session ''Habituation'' 60 0]) \<and>
   last (trial (example_session ''Habituation'' 60 0)) < 100 \<and>
   update_training_settings ''Habituation''
       [example_session ''Habituation'' 60 0, example_session ''Habituation'' 60 0]
       (default_training_settings Map.empty) = Inr (default_training_settings Map.empty)"
  using habituation_rule_reads_latest_session
          [of "[example_session ''Habituation'' 80 0, example_session ''Habituation'' 120 0]"
              "example_session ''Habituation'' 120 0" "default_training_settings Map.empty"]
        habituation_rule_reads_latest_session
          [of "[example_session ''Habituation'' 60 0, example_session ''Habituation'' 60 0]"
              "example_session ''Habituation'' 60 0" "default_training_settings Map.empty"]
  by (simp add: example_session_simps default_training_settings_def)

text \<open>
  The claim as stated fails where the reward is not above 0.07: with a reward
  of 0.05, as the discrimination rule leaves it, and a latest Habituation
  session of 120 trials, the update sets the next task and raises the reward to
  0.07.
\<close>

theorem habituation_rule_raises_low_reward_counterexample:
  "((default_training_settings Map.empty)(''reward_amount_ml'' \<mapsto> Num (5 / 100)))
       ''reward_amount_ml'' = Some (Num (5 / 100)) \<and>
   last (trial (example_session ''Habituation'' 120 0)) = 120 \<and>
   update_training_settings ''Habituation''
       [example_session ''Habituation'' 80 0, example_session ''Habituation'' 120 0]
       ((default_training_settings Map.empty)(''reward_amount_ml'' \<mapsto> Num (5 / 100)))
     = Inr ((default_training_settings Map.empty)
              (''reward_amount_ml'' \<mapsto> Num (7 / 100), ''next_task'' \<mapsto> Str ''FollowTheLight'')) \<and>
   ((default_training_settings Map.empty)
      (''reward_amount_ml'' \<mapsto> Num (7 / 100), ''next_task'' \<mapsto> Str ''FollowTheLight''))
       ''reward_amount_ml'' = Some (Num (7 / 100)) \<and>
   (5 / 100 :: rat) < 7 / 100"
  by (simp add: update_habituation example_session_simps Let_def fun_upd_twist)

text \<open>
  C2 (amended). With \<^verbatim>\<open>last_task = "FollowTheLight"\<close> and at least two
  sessions of that task, the update assigns the constants \<^verbatim>\<open>stage = 2\<close> and
  \<^verbatim>\<open>reward_amount_ml = 0.05\<close> exactly when each of the two most recent
  sessions on its own has a last trial number of at least 100 and a mean of
  \<^verbatim>\<open>correct\<close> of at least 0.85 (\<open>clears_thresholds\<close>); otherwise the
  settings are returned unchanged (or \<^verbatim>\<open>.iloc[-1]\<close> raises on a session
  without trials). The assignment is an advance of the stage whenever the
  stage before was below 2 and a lowering of the reward whenever the reward
  before was above 0.05, as from the initial settings. With accuracies 0.90
  and 0.87 and trial counts 110 and 150 the update makes the assignment; with
  accuracies 0.90 and 0.80 it does not.
\<close>

theorem discrimination_rule_two_sessions:
  assumes "sessions = filter (\<lambda>row. task row = ''FollowTheLight'') df"
      and "2 \<le> length sessions"
      and "latest = last sessions"
      and "previous = sessions ! (length sessions - 2)"
  shows "(clears_thresholds latest \<and> clears_thresholds previous \<longrightarrow>
            update_training_settings ''FollowTheLight'' df s =
              Inr (s(''stage'' \<mapsto> Num 2, ''reward_amount_ml'' \<mapsto> Num (5 / 100)))) \<and>
         (\<not> (clears_thresholds latest \<and> clears_thresholds previous) \<longrightarrow>
            update_training_settings ''FollowTheLight'' df s =
              (if trial latest = [] \<or> trial previous = [] then Inl IndexError else Inr s)) \<and>
         (clears_thresholds latest \<and> clears_thresholds previous \<longrightarrow>
            (\<forall>a. s ''stage'' = Some (Num a) \<and> a < 2 \<longrightarrow>
               (\<exists>s' n. update_training_settings ''FollowTheLight'' df s = Inr s' \<and>
                   s' ''stage'' = Some (Num n) \<and> a < n))) \<and>
         (clears_thresholds latest \<and> clears_thresholds previous \<longrightarrow>
            (\<forall>r. s ''reward_amount_ml'' = Some (Num r) \<and> 5 / 100 < r \<longrightarrow>
               (\<exists>s' r'. update_training_settings ''FollowTheLight'' df s = Inr s' \<and>
                   s' ''reward_amount_ml'' = Some (Num r') \<and> r' < r))) \<and>
         (mean (correct previous) = Some (90 / 100) \<and> mean (correct latest) = Some (87 / 100) \<and>
          trial previous \<noteq> [] \<and> last (trial previous) = 110 \<and>
          trial latest \<noteq> [] \<and> last (trial latest) = 150 \<longrightarrow>
            update_training_settings ''FollowTheLight'' df s =
              Inr (s(''stage'' \<mapsto> Num 2, ''reward_amount_ml'' \<mapsto> Num (5 / 100)))) \<and>
         (mean (correct previous) = Some (90 / 100) \<and> mean (correct latest) = Some (80 / 100) \<and>
          trial previous \<noteq> [] \<and> trial latest \<noteq> [] \<longrightarrow>
            update_training_settings ''FollowTheLight'' df s = Inr s)"
proof -
  let ?upd = "update_training_settings ''FollowTheLight'' df s"
  let ?new = "s(''stage'' \<mapsto> Num 2, ''reward_amount_ml'' \<mapsto> Num (5 / 100))"
  have eq: "?upd =
      (if trial latest = [] \<or> trial previous = [] then Inl IndexError
       else if clears_thresholds latest \<and> clears_thresholds previous then Inr ?new
       else Inr s)"
    using assms by (auto simp: update_follow_the_light Let_def clears_thresholds_iff)
  have yes: "?upd = Inr ?new" if "clears_thresholds latest \<and> clears_thresholds previous"
    using that eq by (auto simp: clears_thresholds_iff)
  have no: "?upd = (if trial latest = [] \<or> trial previous = [] then Inl IndexError else Inr s)"
    if "\<not> (clears_thresholds latest \<and> clears_thresholds previous)"
    using that eq by auto
  have stage_up: "\<exists>s' n. ?upd = Inr s' \<and> s' ''stage'' = Some (Num n) \<and> a < n"
    if "clears_thresholds latest \<and> clears_thresholds previous" "a < 2" for a
  proof -
    have "?new ''stage'' = Some (Num 2)" by simp
    with yes [OF that(1)] that(2) show ?thesis by blast
  qed
  have reward_down: "\<exists>s' r'. ?upd = Inr s' \<and> s' ''reward_amount_ml'' = Some (Num r') \<and> r' < r"
    if "clears_thresholds latest \<and> clears_thresholds previous" "5 / 100 < r" for r
  proof -
    have "?new ''reward_amount_ml'' = Some (Num (5 / 100))" by simp
    with yes [OF that(1)] that(2) show ?thesis by blast
  qed
  have ex1: "?upd = Inr ?new"
    if "mean (correct previous) = Some (90 / 100) \<and> mean (correct latest) = Some (87 / 100) \<and>
        trial previous \<noteq> [] \<and> last (trial previous) = 110 \<and>
        trial latest \<noteq> [] \<and> last (trial latest) = 150"
    using that by (intro yes) (simp add: clears_thresholds_iff)
  have ex2: "?upd = Inr s"
    if "mean (correct previous) = Some (90 / 100) \<and> mean (correct latest) = Some (80 / 100) \<and>
        trial previous \<noteq> [] \<and> trial latest \<noteq> []"
  proof -
    from that have "\<not> clears_thresholds latest" by (simp add: clears_thresholds_iff)
    with no that show ?thesis by simp
  qed
  from yes no stage_up reward_down ex1 ex2 show ?thesis by blast
qed

text \<open>
  The accuracy 0.87 is not a multiple of 1/150, so the session that meets the
  numbers of the second example holds the 100 outcomes of the trials numbered
  51 to 150, 87 of them correct.
\<close>

theorem discrimination_rule_two_sessions_witness:
  "clears_thresholds (example_session ''FollowTheLight'' 110 99) \<and>
   clears_thresholds (example_session ''FollowTheLight'' 150 135) \<and>
   default_training_settings Map.empty ''stage'' = Some (Num 1) \<and>
   default_training_settings Map.empty ''reward_amount_ml'' = Some (Num (8 / 100)) \<and>
   update_training_settings ''FollowTheLight''
       [example_session ''FollowTheLight'' 110 99, example_session ''FollowTheLight'' 150 135]
       (default_training_settings Map.empty) =
     Inr ((default_training_settings Map.empty)
            (''stage'' \<mapsto> Num 2, ''reward_amount_ml'' \<mapsto> Num (5 / 100))) \<and>
   mean (correct (example_session ''FollowTheLight'' 110 99)) = Some (90 / 100) \<and>
   mean (replicate 87 True @ replicate 13 False) = Some (87 / 100) \<and>
   last (map int [51..<151]) = 150 \<and>
   update_training_settings ''FollowTheLight''
       [example_session ''FollowTheLight'' 110 99,
        \<lparr>task = ''FollowTheLight'', trial = map int [51..<151],
         correct = replicate 87 True @ replicate 13 False\<rparr>]
       (default_training_settings Map.empty) =
     Inr ((default_training_settings Map.empty)
            (''stage'' \<mapsto> Num 2, ''reward_amount_ml'' \<mapsto> Num (5 / 100))) \<and>
   mean (correct (example_session ''FollowTheLight'' 150 120)) = Some (80 / 100) \<and>
   \<not> clears_thresholds (example_session ''FollowTheLight'' 150 120) \<and>
   update_training_settings ''FollowTheLight''
       [example_session ''FollowTheLight'' 110 99, example_session ''FollowTheLight'' 150 120]
       (default_training_settings Map.empty) = Inr (default_training_settings Map.empty)"
  using discrimination_rule_two_sessions
          [of "[example_session ''FollowTheLight'' 110 99, example_session ''FollowTheLight'' 150 135]"
              "[example_session ''FollowTheLight'' 110 99, example_session ''FollowTheLight'' 150 135]"
              "example_session ''FollowTheLight'' 150 135"
              "example_session ''FollowTheLight'' 110 99"
              "default_training_settings Map.empty"]
        discrimination_rule_two_sessions
          [of "[example_session ''FollowTheLight'' 110 99,
                \<lparr>task = ''FollowTheLight'', trial = map int [51..<151],
                 correct = replicate 87 True @ replicate 13 False\<rparr>]"
              "[example_session ''FollowTheLight'' 110 99,
                \<lparr>task = ''FollowTheLight'', trial = map int [51..<151],
                 correct = replicate 87 True @ replicate 13 False\<rparr>]"
              "\<lparr>task = ''FollowTheLight'', trial = map int [51..<151],
                 correct = replicate 87 True @ replicate 13 False\<rparr>"
              "example_session ''FollowTheLight'' 110 99"
              "default_training_settings Map.empty"]
        discrimination_rule_two_sessions
          [of "[example_session ''FollowTheLight'' 110 99, example_session ''FollowTheLight'' 150 120]"
              "[example_session ''FollowTheLight'' 110 99, example_session ''FollowTheLight'' 150 120]"
              "example_session ''FollowTheLight'' 150 120"
              "example_session ''FollowTheLight'' 110 99"
              "default_training_settings Map.empty"]
  by (simp add: example_session_simps clears_thresholds_iff mean_replicate last_map
        default_training_settings_def)

text \<open>
  The claim as stated fails where the stage is not below 2 or the reward not
  above 0.05: with stage 2 and a reward of 0.03, and two sessions that clear
  both thresholds, the stage stays 2 and the reward is raised to 0.05.
\<close>

theorem discrimination_rule_no_advance_counterexample:
  "clears_thresholds (example_session ''FollowTheLight'' 110 99) \<and>
   clears_thresholds (example_session ''FollowTheLight'' 150 135) \<and>
   ((default_training_settings Map.empty)
      (''stage'' \<mapsto> Num 2, ''reward_amount_ml'' \<mapsto> Num (3 / 100))) ''stage'' = Some (Num 2) \<and>
   ((default_training_settings Map.empty)
      (''stage'' \<mapsto> Num 2, ''reward_amount_ml'' \<mapsto> Num (3 / 100))) ''reward_amount_ml''
     = Some (Num (3 / 100)) \<and>
   update_training_settings ''FollowTheLight''
       [example_session ''FollowTheLight'' 110 99, example_session ''FollowTheLight'' 150 135]
       ((default_training_settings Map.empty)
          (''stage'' \<mapsto> Num 2, ''reward_amount_ml'' \<mapsto> Num (3 / 100)))
     = Inr ((default_training_settings Map.empty)
              (''stage'' \<mapsto> Num 2, ''reward_amount_ml'' \<mapsto> Num (5 / 100))) \<and>
   ((default_training_settings Map.empty)
      (''stage'' \<mapsto> Num 2, ''reward_amount_ml'' \<mapsto> Num (5 / 100))) ''stage'' = Some (Num 2) \<and>
   ((default_training_settings Map.empty)
      (''stage'' \<mapsto> Num 2, ''reward_amount_ml'' \<mapsto> Num (5 / 100))) ''reward_amount_ml''
     = Some (Num (5 / 100)) \<and>
   (3 / 100 :: rat) < 5 / 100"
  by (simp add: update_follow_the_light example_session_simps clears_thresholds_iff
        mean_replicate last_map Let_def)

text \<open>
  C1 (amended). The update never moves \<^verbatim>\<open>next_task\<close> back: it leaves it or
  sets it to \<^verbatim>\<open>FollowTheLight\<close>, and never sets it to \<^verbatim>\<open>Habituation\<close>.
  The stage after the update is the stage before or the constant 2, so a stage
  of at most 2 (the two stages the task defines) never decreases.
\<close>

theorem controller_ratchet_up_to_stage_two:
  assumes "update_training_settings last_task df s = Inr s'"
  shows "(s' ''next_task'' = s ''next_task'' \<or> s' ''next_task'' = Some (Str ''FollowTheLight'')) \<and>
         (s' ''next_task'' = Some (Str ''Habituation'') \<longrightarrow> s ''next_task'' = Some (Str ''Habituation'')) \<and>
         (s' ''stage'' = s ''stage'' \<or> s' ''stage'' = Some (Num 2)) \<and>
         (\<forall>a. s ''stage'' = Some (Num a) \<and> a \<le> 2 \<longrightarrow>
              (\<exists>b. s' ''stage'' = Some (Num b) \<and> a \<le> b))"
proof -
  have "s' = s \<or>
        s' = s(''next_task'' \<mapsto> Str ''FollowTheLight'', ''reward_amount_ml'' \<mapsto> Num (7 / 100)) \<or>
        s' = s(''stage'' \<mapsto> Num 2, ''reward_amount_ml'' \<mapsto> Num (5 / 100))"
    using assms
    by (auto simp: update_training_settings_def Let_def bind_def split: if_splits sum.splits)
  then show ?thesis by auto
qed

theorem controller_ratchet_up_to_stage_two_witness:
  "update_training_settings ''FollowTheLight''
       [example_session ''FollowTheLight'' 110 99, example_session ''FollowTheLight'' 150 135]
       (default_training_settings Map.empty) =
     Inr ((default_training_settings Map.empty)
            (''stage'' \<mapsto> Num 2, ''reward_amount_ml'' \<mapsto> Num (5 / 100))) \<and>
   default_training_settings Map.empty ''stage'' = Some (Num 1) \<and>
   (\<exists>b. ((default_training_settings Map.empty)
            (''stage'' \<mapsto> Num 2, ''reward_amount_ml'' \<mapsto> Num (5 / 100))) ''stage'' = Some (Num b) \<and>
        1 \<le> b)"
proof -
  have upd: "update_training_settings ''FollowTheLight''
       [example_session ''FollowTheLight'' 110 99, example_session ''FollowTheLight'' 150 135]
       (default_training_settings Map.empty) =
     Inr ((default_training_settings Map.empty)
            (''stage'' \<mapsto> Num 2, ''reward_amount_ml'' \<mapsto> Num (5 / 100)))"
    by (simp add: update_follow_the_light example_session_simps mean_replicate last_map Let_def)
  have st: "default_training_settings Map.empty ''stage'' = Some (Num 1)"
    by (simp add: default_training_settings_def)
  from controller_ratchet_up_to_stage_two [OF upd] st upd show ?thesis by simp
qed

text \<open>
  The claim as stated fails above stage 2: with stage 3 and two sessions that
  clear both thresholds, the update assigns stage 2.
\<close>

theorem stage_above_two_is_lowered_counterexample:
  "((default_training_settings Map.empty)(''stage'' \<mapsto> Num 3)) ''stage'' = Some (Num 3) \<and>
   update_training_settings ''FollowTheLight''
     [example_session ''FollowTheLight'' 110 99, example_session ''FollowTheLight'' 150 135]
     ((default_training_settings Map.empty)(''stage'' \<mapsto> Num 3))
   = Inr ((default_training_settings Map.empty)
            (''stage'' \<mapsto> Num 2, ''reward_amount_ml'' \<mapsto> Num (5 / 100))) \<and>
   ((default_training_settings Map.empty)
      (''stage'' \<mapsto> Num 2, ''reward_amount_ml'' \<mapsto> Num (5 / 100))) ''stage'' = Some (Num 2) \<and>
   (2::rat) < 3"
  by (simp add: update_follow_the_light example_session_simps mean_replicate last_map Let_def)

section \<open>Properties of the trial state machines\<close>

lemma bindE:
  assumes "bind m f = Inr y"
  obtains x where "m = Inr x" and "f x = Inr y"
  using assms by (cases m) (auto simp: bind_def)

lemma getattr_Inr: "getattr s k = Inr v \<longleftrightarrow> s k = Some v"
  by (simp add: getattr_def split: option.splits)

lemma self_attr_Inr: "self_attr name v = Inr x \<longleftrightarrow> v = Some x"
  by (simp add: self_attr_def split: option.splits)

lemma start_wired:
  assumes "FollowTheLight_start cal s0 new_task = Inr self"
  shows "\<exists>stage. s0 ''stage'' = Some stage \<and>
           wired (if py_eq stage (Num 1) then ''stimulus_state'' else ''punish_state'') self"
  using assms
  by (auto simp: FollowTheLight_start_def getattr_Inr wired_def new_task_def elim!: bindE)

lemma set_trial_variables_wired:
  assumes "set_trial_variables s self tt = Inr self'" and "wired punish self"
  shows "wired punish self'"
  using assms
  by (auto simp: set_trial_variables_def wired_def self_attr_Inr elim!: bindE split: if_splits)

lemma create_trial_wired:
  assumes "FollowTheLight_create_trial s self r = Inr (self', g)" and "wired punish self"
  shows "wired punish self'"
proof -
  from assms(1) obtain tt where
    "set_trial_variables s (self\<lparr>this_trial_type := Some tt\<rparr>) tt = Inr self'"
    by (auto simp: FollowTheLight_create_trial_def elim!: bindE)
  moreover from assms(2) have "wired punish (self\<lparr>this_trial_type := Some tt\<rparr>)"
    by (simp add: wired_def)
  ultimately show ?thesis by (rule set_trial_variables_wired)
qed

lemma in_session_wired:
  assumes "in_session cal s0 self"
  shows "\<exists>stage. s0 ''stage'' = Some stage \<and>
           wired (if py_eq stage (Num 1) then ''stimulus_state'' else ''punish_state'') self"
  using assms
proof (induction rule: in_session.induct)
  case (started self)
  then show ?case by (rule start_wired)
next
  case (next_trial self s r self' bpod)
  then show ?case using create_trial_wired by blast
qed

lemma add_trial_states_shape:
  assumes "add_trial_states s self = Inr g"
  shows "\<exists>center timer left right lights time valve punishment iti.
           s ''light_intensity_high'' = Some center \<and>
           s ''timer_for_response'' = Some timer \<and>
           left_poke_action self = Some left \<and>
           right_poke_action self = Some right \<and>
           stimulus_state_output self = Some lights \<and>
           valve_opening_time self = Some time \<and>
           valve_to_open self = Some valve \<and>
           s ''punishment_time'' = Some punishment \<and>
           s ''iti_time'' = Some iti \<and>
           g = [\<lparr>state_name = ''ready_to_initiate'', state_timer = Num 0,
                  state_change_conditions = [(Port2In, ''stimulus_state'')],
                  output_actions = [Level PWM2 center]\<rparr>,
                \<lparr>state_name = ''stimulus_state'', state_timer = timer,
                  state_change_conditions = [(Port1In, left), (Port3In, right), (Tup, ''exit'')],
                  output_actions = lights\<rparr>,
                \<lparr>state_name = ''reward_state'', state_timer = time,
                  state_change_conditions = [(Tup, ''iti_state'')],
                  output_actions = [Switch valve]\<rparr>,
                \<lparr>state_name = ''punish_state'', state_timer = punishment,
                  state_change_conditions = [(Tup, ''iti_state'')],
                  output_actions = []\<rparr>,
                \<lparr>state_name = ''iti_state'', state_timer = iti,
                  state_change_conditions = [(Tup, ''exit'')],
                  output_actions = []\<rparr>]"
  using assms
  by (auto simp: add_trial_states_def add_state_def Let_def getattr_Inr self_attr_Inr elim!: bindE)

lemma add_trial_states_transitions:
  assumes "add_trial_states s self = Inr g"
  shows "\<exists>left right. left_poke_action self = Some left \<and> right_poke_action self = Some right \<and>
           map state_name g = [''ready_to_initiate'', ''stimulus_state'', ''reward_state'',
                               ''punish_state'', ''iti_state''] \<and>
           transitions g =
             [(''ready_to_initiate'', Port2In, ''stimulus_state''),
              (''stimulus_state'', Port1In, left),
              (''stimulus_state'', Port3In, right),
              (''stimulus_state'', Tup, ''exit''),
              (''reward_state'', Tup, ''iti_state''),
              (''punish_state'', Tup, ''iti_state''),
              (''iti_state'', Tup, ''exit'')]"
  using add_trial_states_shape [OF assms]
  by (auto simp: transitions_def)

lemma create_trial_parts:
  assumes "FollowTheLight_create_trial s self r = Inr (self', g)"
  obtains tt where "this_trial_type self' = Some tt"
    and "set_trial_variables s (self\<lparr>this_trial_type := Some tt\<rparr>) tt = Inr self'"
    and "add_trial_states s self' = Inr g"
proof -
  from assms obtain tt where
    a: "set_trial_variables s (self\<lparr>this_trial_type := Some tt\<rparr>) tt = Inr self'"
    and b: "add_trial_states s self' = Inr g"
    by (auto simp: FollowTheLight_create_trial_def elim!: bindE)
  from a have "this_trial_type self' = Some tt"
    by (auto simp: set_trial_variables_def elim!: bindE split: if_splits)
  with a b that show thesis by blast
qed

lemma set_trial_variables_pokes:
  assumes "set_trial_variables s self tt = Inr self'"
  shows "punish_condition self' = punish_condition self"
    and "contains ''left'' tt \<Longrightarrow>
           left_poke_action self' = Some ''reward_state'' \<and>
           right_poke_action self' = punish_condition self"
    and "\<not> contains ''left'' tt \<Longrightarrow> contains ''right'' tt \<Longrightarrow>
           right_poke_action self' = Some ''reward_state'' \<and>
           left_poke_action self' = punish_condition self"
  using assms
  by (auto simp: set_trial_variables_def self_attr_Inr elim!: bindE split: if_splits)

lemma reachable_target:
  assumes "reachable g a x"
  shows "x = a \<or> x \<in> set (map (\<lambda>(source, ev, target). target) (transitions g))"
  using assms
proof (induction rule: reachable.induct)
  case here
  show ?case by simp
next
  case (step b ev c)
  from step.hyps(2) have "c \<in> set (map (\<lambda>(source, ev, target). target) (transitions g))"
    by force
  then show ?case ..
qed

lemma no_punish_when_rewired:
  assumes tr: "transitions g =
             [(''ready_to_initiate'', Port2In, ''stimulus_state''),
              (''stimulus_state'', Port1In, left),
              (''stimulus_state'', Port3In, right),
              (''stimulus_state'', Tup, ''exit''),
              (''reward_state'', Tup, ''iti_state''),
              (''punish_state'', Tup, ''iti_state''),
              (''iti_state'', Tup, ''exit'')]"
    and l: "left = ''reward_state'' \<or> left = ''stimulus_state''"
    and r: "right = ''reward_state'' \<or> right = ''stimulus_state''"
  shows "\<not> reachable g ''stimulus_state'' ''punish_state''"
proof
  assume "reachable g ''stimulus_state'' ''punish_state''"
  from reachable_target [OF this]
  have "''punish_state'' = left \<or> ''punish_state'' = right"
    by (simp add: tr)
  with l r show False by auto
qed

lemma reachable_edge: "(a, ev, b) \<in> set (transitions g) \<Longrightarrow> reachable g a b"
  by (rule reachable.step [OF reachable.here])

lemma session_trial_pokes:
  assumes "FollowTheLight_create_trial s self r = Inr (self', g)"
  shows "\<exists>left right tt. left_poke_action self' = Some left \<and>
           right_poke_action self' = Some right \<and> this_trial_type self' = Some tt"
proof -
  from assms obtain tt where "this_trial_type self' = Some tt"
    and "add_trial_states s self' = Inr g"
    by (rule create_trial_parts)
  with add_trial_states_transitions [of s self' g] show ?thesis by auto
qed

lemma session_trial_wiring:
  assumes ses: "in_session cal s0 self"
      and st: "s0 ''stage'' = Some stage"
      and ct: "FollowTheLight_create_trial s self r = Inr (self', g)"
      and tt: "this_trial_type self' = Some tt"
      and lp: "left_poke_action self' = Some left"
      and rp: "right_poke_action self' = Some right"
      and punish: "punish = (if py_eq stage (Num 1) then ''stimulus_state'' else ''punish_state'')"
  shows "punish_condition self = Some punish" "punish_condition self' = Some punish"
    "(left = ''reward_state'' \<and> right = punish) \<or> (left = punish \<and> right = ''reward_state'')"
    "contains ''left'' tt \<Longrightarrow> left = ''reward_state'' \<and> right = punish"
    "\<not> contains ''left'' tt \<Longrightarrow> contains ''right'' tt \<Longrightarrow> left = punish \<and> right = ''reward_state''"
    "map state_name g = [''ready_to_initiate'', ''stimulus_state'', ''reward_state'',
                         ''punish_state'', ''iti_state'']"
    "transitions g =
             [(''ready_to_initiate'', Port2In, ''stimulus_state''),
              (''stimulus_state'', Port1In, left),
              (''stimulus_state'', Port3In, right),
              (''stimulus_state'', Tup, ''exit''),
              (''reward_state'', Tup, ''iti_state''),
              (''punish_state'', Tup, ''iti_state''),
              (''iti_state'', Tup, ''exit'')]"
proof -
  from in_session_wired [OF ses] st have w: "wired punish self"
    by (auto simp: punish)
  from create_trial_wired [OF ct w] have w': "wired punish self'" .
  from ct obtain tt' where tt': "this_trial_type self' = Some tt'"
    and sv': "set_trial_variables s (self\<lparr>this_trial_type := Some tt'\<rparr>) tt' = Inr self'"
    and ad: "add_trial_states s self' = Inr g"
    by (rule create_trial_parts)
  from tt tt' have "tt' = tt" by simp
  with sv' have sv: "set_trial_variables s (self\<lparr>this_trial_type := Some tt\<rparr>) tt = Inr self'"
    by simp
  from add_trial_states_transitions [OF ad] lp rp
  show "map state_name g = [''ready_to_initiate'', ''stimulus_state'', ''reward_state'',
                         ''punish_state'', ''iti_state'']"
    and "transitions g =
             [(''ready_to_initiate'', Port2In, ''stimulus_state''),
              (''stimulus_state'', Port1In, left),
              (''stimulus_state'', Port3In, right),
              (''stimulus_state'', Tup, ''exit''),
              (''reward_state'', Tup, ''iti_state''),
              (''punish_state'', Tup, ''iti_state''),
              (''iti_state'', Tup, ''exit'')]"
    by auto
  from w' lp rp show
    "(left = ''reward_state'' \<and> right = punish) \<or> (left = punish \<and> right = ''reward_state'')"
    by (auto simp: wired_def)
  from w have pc: "punish_condition (self\<lparr>this_trial_type := Some tt\<rparr>) = Some punish"
    by (simp add: wired_def)
  show "left = ''reward_state'' \<and> right = punish" if "contains ''left'' tt"
    using set_trial_variables_pokes(2) [OF sv that] lp rp pc by simp
  show "left = punish \<and> right = ''reward_state''"
    if "\<not> contains ''left'' tt" "contains ''right'' tt"
    using set_trial_variables_pokes(3) [OF sv that] lp rp pc by simp
  from w w' show "punish_condition self = Some punish" "punish_condition self' = Some punish"
    by (simp_all add: wired_def)
qed

text \<open>
  C4. The target of the incorrect first response is fixed by \<^verbatim>\<open>start\<close> from
  the stage of the settings the session starts with, and every trial of the
  session reuses it: \<^verbatim>\<open>create_trial\<close> leaves \<^verbatim>\<open>punish_condition\<close> as
  it is, whatever settings the trial itself reads. With stage 1 the transition
  of the incorrect side leads back to the stimulus state and the punish state
  is unreachable from the stimulus state; with a stage of at least 2 it leads
  to the punish state, and both the reward and the punish state are reachable
  from the stimulus state.
\<close>


theorem punish_wiring_fixed_at_start:
  assumes "in_session cal s0 self"
      and "s0 ''stage'' = Some stage"
      and "FollowTheLight_create_trial s self r = Inr (self', g)"
      and "this_trial_type self' = Some tt"
  shows "punish_condition self' = punish_condition self \<and>
         (py_eq stage (Num 1) \<longrightarrow>
            punish_condition self = Some ''stimulus_state'' \<and>
            (contains ''left'' tt \<longrightarrow>
               (''stimulus_state'', Port3In, ''stimulus_state'') \<in> set (transitions g)) \<and>
            (\<not> contains ''left'' tt \<and> contains ''right'' tt \<longrightarrow>
               (''stimulus_state'', Port1In, ''stimulus_state'') \<in> set (transitions g)) \<and>
            \<not> reachable g ''stimulus_state'' ''punish_state'') \<and>
         ((\<exists>n. stage = Num n \<and> 2 \<le> n) \<longrightarrow>
            punish_condition self = Some ''punish_state'' \<and>
            (contains ''left'' tt \<longrightarrow>
               (''stimulus_state'', Port3In, ''punish_state'') \<in> set (transitions g)) \<and>
            (\<not> contains ''left'' tt \<and> contains ''right'' tt \<longrightarrow>
               (''stimulus_state'', Port1In, ''punish_state'') \<in> set (transitions g)) \<and>
            reachable g ''stimulus_state'' ''reward_state'' \<and>
            reachable g ''stimulus_state'' ''punish_state'')"
proof -
  define punish where "punish = (if py_eq stage (Num 1) then ''stimulus_state'' else ''punish_state'')"
  from session_trial_pokes [OF assms(3)] obtain left right where
    lp: "left_poke_action self' = Some left" and rp: "right_poke_action self' = Some right"
    by auto
  note w = session_trial_wiring [OF assms lp rp punish_def]
  note pc = w(1,2) and either = w(3) and l = w(4) and r = w(5) and tr = w(7)
  note p = punish_def
  have e1: "(''stimulus_state'', Port1In, left) \<in> set (transitions g)"
    and e3: "(''stimulus_state'', Port3In, right) \<in> set (transitions g)"
    by (simp_all add: tr)
  have same: "punish_condition self' = punish_condition self"
    using pc by simp
  have one: "punish_condition self = Some ''stimulus_state'' \<and>
            (contains ''left'' tt \<longrightarrow>
               (''stimulus_state'', Port3In, ''stimulus_state'') \<in> set (transitions g)) \<and>
            (\<not> contains ''left'' tt \<and> contains ''right'' tt \<longrightarrow>
               (''stimulus_state'', Port1In, ''stimulus_state'') \<in> set (transitions g)) \<and>
            \<not> reachable g ''stimulus_state'' ''punish_state''"
    if "py_eq stage (Num 1)"
  proof -
    from that p have ps: "punish = ''stimulus_state''" by simp
    from either ps have "left = ''reward_state'' \<or> left = ''stimulus_state''"
      "right = ''reward_state'' \<or> right = ''stimulus_state''"
      by auto
    from no_punish_when_rewired [OF tr this]
    have "\<not> reachable g ''stimulus_state'' ''punish_state''" .
    with pc ps l r e1 e3 show ?thesis by auto
  qed
  have two: "punish_condition self = Some ''punish_state'' \<and>
            (contains ''left'' tt \<longrightarrow>
               (''stimulus_state'', Port3In, ''punish_state'') \<in> set (transitions g)) \<and>
            (\<not> contains ''left'' tt \<and> contains ''right'' tt \<longrightarrow>
               (''stimulus_state'', Port1In, ''punish_state'') \<in> set (transitions g)) \<and>
            reachable g ''stimulus_state'' ''reward_state'' \<and>
            reachable g ''stimulus_state'' ''punish_state''"
    if "\<exists>n. stage = Num n \<and> 2 \<le> n"
  proof -
    from that have "\<not> py_eq stage (Num 1)" by (auto simp: py_eq_def)
    with p have ps: "punish = ''punish_state''" by simp
    from either e1 e3 have "reachable g ''stimulus_state'' ''reward_state''"
      by (auto intro: reachable_edge)
    moreover from either e1 e3 ps have "reachable g ''stimulus_state'' ''punish_state''"
      by (auto intro: reachable_edge)
    ultimately show ?thesis using pc ps l r e1 e3 by auto
  qed
  from same one two show ?thesis by blast
qed

lemma example_start:
  "FollowTheLight_start example_calibration (example_settings stage) new_task
     = Inr (example_started stage)"
  by (simp add: FollowTheLight_start_def example_calibration_def example_settings_def
        default_training_settings_def getattr_def example_started_def py_eq_def)

lemma example_in_session:
  "in_session example_calibration (example_settings stage) (example_started stage)"
  by (rule in_session.started) (rule example_start)

lemmas example_trial_defs =
  FollowTheLight_create_trial_def set_trial_variables_def add_trial_states_def add_state_def
  getattr_def self_attr_def example_settings_def default_training_settings_def
  example_started_def new_task_def Let_def

text \<open>
  A session started at stage 1 whose trial reads settings with stage 2 still
  wires the incorrect side back to the stimulus state; a session started at
  stage 2 wires it to the punish state.
\<close>

theorem punish_wiring_fixed_at_start_witness:
  "in_session example_calibration (example_settings 1) (example_started 1) \<and>
   example_settings 1 ''stage'' = Some (Num 1) \<and> py_eq (Num 1) (Num 1) \<and>
   map_sum id (\<lambda>(self', g). this_trial_type self')
     (FollowTheLight_create_trial (example_settings 2) (example_started 1) 0)
     = Inr (Some ''left_easy'') \<and>
   map_sum id (\<lambda>(self', g).
       (''stimulus_state'', Port3In, ''stimulus_state'') \<in> set (transitions g) \<and>
       \<not> reachable g ''stimulus_state'' ''punish_state'')
     (FollowTheLight_create_trial (example_settings 2) (example_started 1) 0)
     = Inr True \<and>
   in_session example_calibration (example_settings 2) (example_started 2) \<and>
   example_settings 2 ''stage'' = Some (Num 2) \<and>
   map_sum id (\<lambda>(self', g). this_trial_type self')
     (FollowTheLight_create_trial (example_settings 2) (example_started 2) 3)
     = Inr (Some ''right_hard'') \<and>
   map_sum id (\<lambda>(self', g).
       (''stimulus_state'', Port1In, ''punish_state'') \<in> set (transitions g) \<and>
       reachable g ''stimulus_state'' ''reward_state'' \<and>
       reachable g ''stimulus_state'' ''punish_state'')
     (FollowTheLight_create_trial (example_settings 2) (example_started 2) 3)
     = Inr True"
proof -
  obtain self1 g1 where
    ct1: "FollowTheLight_create_trial (example_settings 2) (example_started 1) 0 = Inr (self1, g1)"
    and tt1: "this_trial_type self1 = Some ''left_easy''"
    by (simp add: example_trial_defs)
  obtain self2 g2 where
    ct2: "FollowTheLight_create_trial (example_settings 2) (example_started 2) 3 = Inr (self2, g2)"
    and tt2: "this_trial_type self2 = Some ''right_hard''"
    by (simp add: example_trial_defs)
  have st1: "example_settings 1 ''stage'' = Some (Num 1)"
    and st2: "example_settings 2 ''stage'' = Some (Num 2)"
    by (simp_all add: example_settings_def)
  have c: "contains ''left'' ''left_easy''" "\<not> contains ''left'' ''right_hard''"
    "contains ''right'' ''right_hard''"
    by simp_all
  have one: "py_eq (Num 1) (Num 1)" by (simp add: py_eq_def)
  have two: "\<exists>n. Num 2 = Num n \<and> 2 \<le> n" by simp
  from punish_wiring_fixed_at_start [OF example_in_session st1 ct1 tt1]
       punish_wiring_fixed_at_start [OF example_in_session st2 ct2 tt2]
       example_in_session st1 st2 one two c
  show ?thesis
    by (simp add: ct1 ct2 tt1 tt2)
qed

lemma habituation_graph_shape:
  assumes "Habituation_create_trial s self = Inr g"
  shows "map state_name g = [''ready_to_initiate'', ''stimulus_state'', ''reward_state_left'',
                             ''reward_state_right''] \<and>
         transitions g =
           [(''ready_to_initiate'', Port2In, ''stimulus_state''),
            (''stimulus_state'', Port1In, ''reward_state_left''),
            (''stimulus_state'', Port3In, ''reward_state_right''),
            (''reward_state_left'', Tup, ''exit''),
            (''reward_state_right'', Tup, ''exit'')]"
  using assms
  by (auto simp: Habituation_create_trial_def add_state_def Let_def transitions_def elim!: bindE)

text \<open>
  C10. Every graph either builder returns has no dangling edge: each next-state
  name in a \<^verbatim>\<open>state_change_conditions\<close> dictionary is \<^verbatim>\<open>exit\<close> or the
  name of a state added to the same graph. For Habituation this holds for any
  settings and task object; for FollowTheLight for any settings, any draw of
  the trial type and any task object of a session.
\<close>


theorem built_graphs_are_resolved:
  "(Habituation_create_trial s self = Inr g \<longrightarrow> resolved g) \<and>
   (in_session cal s0 self0 \<and> FollowTheLight_create_trial s' self0 r = Inr (self1, g') \<longrightarrow>
      resolved g')"
proof (intro conjI impI)
  assume "Habituation_create_trial s self = Inr g"
  from habituation_graph_shape [OF this] show "resolved g"
    by (simp add: resolved_def)
next
  assume a: "in_session cal s0 self0 \<and> FollowTheLight_create_trial s' self0 r = Inr (self1, g')"
  then have ses: "in_session cal s0 self0"
    and ct: "FollowTheLight_create_trial s' self0 r = Inr (self1, g')"
    by simp_all
  from in_session_wired [OF ses] obtain stage where st: "s0 ''stage'' = Some stage" by auto
  from session_trial_pokes [OF ct] obtain left right tt where
    lp: "left_poke_action self1 = Some left" and rp: "right_poke_action self1 = Some right"
    and tt: "this_trial_type self1 = Some tt"
    by auto
  define punish where "punish = (if py_eq stage (Num 1) then ''stimulus_state'' else ''punish_state'')"
  note w = session_trial_wiring [OF ses st ct tt lp rp punish_def]
  have p: "punish = ''stimulus_state'' \<or> punish = ''punish_state''"
    by (simp add: punish_def)
  have l: "left \<in> set (map state_name g')" and r: "right \<in> set (map state_name g')"
    using w(3) p by (auto simp: w(6))
  have "list_all (\<lambda>(source, ev, target). target = ''exit'' \<or> target \<in> set (map state_name g'))
          (transitions g')"
    unfolding w(7) using l r by (simp add: w(6))
  then show "resolved g'" by (simp add: resolved_def)
qed

theorem built_graphs_are_resolved_witness:
  "map_sum id resolved
     (bind (Habituation_start example_calibration (example_settings 1) new_task)
        (Habituation_create_trial (example_settings 1))) = Inr True \<and>
   in_session example_calibration (example_settings 2) (example_started 2) \<and>
   map_sum id (\<lambda>(self', g). resolved g)
     (FollowTheLight_create_trial (example_settings 2) (example_started 2) 3) = Inr True"
proof -
  obtain self0 g where
    hs: "Habituation_start example_calibration (example_settings 1) new_task = Inr self0"
    and hc: "Habituation_create_trial (example_settings 1) self0 = Inr g"
    by (simp add: Habituation_start_def Habituation_create_trial_def example_calibration_def
          example_trial_defs)
  obtain self2 g2 where
    ct2: "FollowTheLight_create_trial (example_settings 2) (example_started 2) 3 = Inr (self2, g2)"
    by (simp add: example_trial_defs)
  from built_graphs_are_resolved
         [of "example_settings 1" self0 g example_calibration "example_settings 2"
             "example_started 2" "example_settings 2" 3 self2 g2]
       hc ct2 example_in_session [of 2]
  show ?thesis by (simp add: hs hc ct2)
qed

lemma no_graph_without_timer_for_response:
  assumes "s ''timer_for_response'' = None"
  shows "FollowTheLight_create_trial s self r \<noteq> Inr (self', g)"
proof
  assume "FollowTheLight_create_trial s self r = Inr (self', g)"
  then obtain tt where "add_trial_states s self' = Inr g"
    by (rule create_trial_parts)
  from add_trial_states_shape [OF this] assms show False by auto
qed

text \<open>
  What the stimulus state holds once the attribute exists: its timer is the
  value of \<^verbatim>\<open>timer_for_response\<close>, it leaves on timeout to \<^verbatim>\<open>exit\<close>, and
  it lights the rewarded side at the high intensity and, for a trial type
  containing \<^verbatim>\<open>hard\<close> and only then, the other side at the low intensity.
\<close>

lemma set_trial_variables_lights:
  assumes "set_trial_variables s self tt = Inr self'"
  shows "contains ''left'' tt \<Longrightarrow>
           \<exists>high. s ''light_intensity_high'' = Some high \<and>
             (if contains ''hard'' tt
              then \<exists>low. s ''light_intensity_low'' = Some low \<and>
                     stimulus_state_output self' = Some [Level PWM1 high, Level PWM3 low]
              else stimulus_state_output self' = Some [Level PWM1 high])"
    and "\<not> contains ''left'' tt \<Longrightarrow> contains ''right'' tt \<Longrightarrow>
           \<exists>high. s ''light_intensity_high'' = Some high \<and>
             (if contains ''hard'' tt
              then \<exists>low. s ''light_intensity_low'' = Some low \<and>
                     stimulus_state_output self' = Some [Level PWM3 high, Level PWM1 low]
              else stimulus_state_output self' = Some [Level PWM3 high])"
  using assms
  by (auto simp: set_trial_variables_def getattr_Inr elim!: bindE split: if_splits)

lemma stimulus_state_as_built:
  assumes "FollowTheLight_create_trial s self r = Inr (self', g)"
      and "this_trial_type self' = Some tt"
  shows "state_name (g ! 1) = ''stimulus_state''"
    and "s ''timer_for_response'' = Some (state_timer (g ! 1))"
    and "(Tup, ''exit'') \<in> set (state_change_conditions (g ! 1))"
    and "contains ''left'' tt \<Longrightarrow>
           \<exists>high. s ''light_intensity_high'' = Some high \<and>
             (if contains ''hard'' tt
              then \<exists>low. s ''light_intensity_low'' = Some low \<and>
                     output_actions (g ! 1) = [Level PWM1 high, Level PWM3 low]
              else output_actions (g ! 1) = [Level PWM1 high])"
    and "\<not> contains ''left'' tt \<Longrightarrow> contains ''right'' tt \<Longrightarrow>
           \<exists>high. s ''light_intensity_high'' = Some high \<and>
             (if contains ''hard'' tt
              then \<exists>low. s ''light_intensity_low'' = Some low \<and>
                     output_actions (g ! 1) = [Level PWM3 high, Level PWM1 low]
              else output_actions (g ! 1) = [Level PWM3 high])"
proof -
  from assms(1) obtain tt' where tt': "this_trial_type self' = Some tt'"
    and sv': "set_trial_variables s (self\<lparr>this_trial_type := Some tt'\<rparr>) tt' = Inr self'"
    and ad: "add_trial_states s self' = Inr g"
    by (rule create_trial_parts)
  from tt' assms(2) sv' have sv: "set_trial_variables s (self\<lparr>this_trial_type := Some tt\<rparr>) tt = Inr self'"
    by simp
  from add_trial_states_shape [OF ad]
  have shape: "state_name (g ! 1) = ''stimulus_state'' \<and>
        s ''timer_for_response'' = Some (state_timer (g ! 1)) \<and>
        (Tup, ''exit'') \<in> set (state_change_conditions (g ! 1)) \<and>
        stimulus_state_output self' = Some (output_actions (g ! 1))"
    by auto
  from shape show "state_name (g ! 1) = ''stimulus_state''"
    and "s ''timer_for_response'' = Some (state_timer (g ! 1))"
    and "(Tup, ''exit'') \<in> set (state_change_conditions (g ! 1))"
    by simp_all
  show "\<exists>high. s ''light_intensity_high'' = Some high \<and>
             (if contains ''hard'' tt
              then \<exists>low. s ''light_intensity_low'' = Some low \<and>
                     output_actions (g ! 1) = [Level PWM1 high, Level PWM3 low]
              else output_actions (g ! 1) = [Level PWM1 high])"
    if "contains ''left'' tt"
    using set_trial_variables_lights(1) [OF sv that] shape by (auto split: if_splits)
  show "\<exists>high. s ''light_intensity_high'' = Some high \<and>
             (if contains ''hard'' tt
              then \<exists>low. s ''light_intensity_low'' = Some low \<and>
                     output_actions (g ! 1) = [Level PWM3 high, Level PWM1 low]
              else output_actions (g ! 1) = [Level PWM3 high])"
    if "\<not> contains ''left'' tt" "contains ''right'' tt"
    using set_trial_variables_lights(2) [OF sv that] shape by (auto split: if_splits)
qed


text \<open>
  C5. The timer of the stimulus state is read from the attribute
  \<^verbatim>\<open>timer_for_response\<close>, while the response window is configured as
  \<^verbatim>\<open>response_time\<close>. With the settings \<^verbatim>\<open>default_training_settings\<close>
  creates, \<^verbatim>\<open>create_trial\<close> raises \<^verbatim>\<open>AttributeError\<close> for every task
  object and every draw of the trial type, so no stimulus state is built.
\<close>


theorem stimulus_timer_reads_unset_attribute:
  "default_training_settings Map.empty ''response_time'' = Some (Num 10) \<and>
   default_training_settings Map.empty ''timer_for_response'' = None \<and>
   bind (FollowTheLight_start example_calibration (default_training_settings Map.empty) new_task)
     (\<lambda>self. FollowTheLight_create_trial (default_training_settings Map.empty) self 0)
     = Inl (AttributeError ''timer_for_response'') \<and>
   (\<forall>self r self' g.
      FollowTheLight_create_trial (default_training_settings Map.empty) self r \<noteq> Inr (self', g))"
proof -
  have a: "default_training_settings Map.empty ''response_time'' = Some (Num 10)"
    and b: "default_training_settings Map.empty ''timer_for_response'' = None"
    by (simp_all add: default_training_settings_def)
  have c: "bind (FollowTheLight_start example_calibration (default_training_settings Map.empty) new_task)
     (\<lambda>self. FollowTheLight_create_trial (default_training_settings Map.empty) self 0)
     = Inl (AttributeError ''timer_for_response'')"
    by (simp add: FollowTheLight_start_def example_calibration_def py_eq_def
          FollowTheLight_create_trial_def set_trial_variables_def add_trial_states_def
          add_state_def getattr_def self_attr_def default_training_settings_def new_task_def Let_def)
  have d: "FollowTheLight_create_trial (default_training_settings Map.empty) self r \<noteq> Inr (self', g)"
    for self r self' g
    using b by (rule no_graph_without_timer_for_response)
  from a b c d show ?thesis by simp
qed

lemma after_trial_record:
  assumes "s ''reward_amount_ml'' = Some water" and "this_trial_type self = Some tt"
  shows "FollowTheLight_after_trial s self events =
     Inr [''water'' \<mapsto> water, ''trial_type'' \<mapsto> Str tt,
          ''correct'' \<mapsto> Bool
             (find_first_occurrence events [''Port1In'', ''Port3In''] = ''Port1In'' \<and> contains ''left'' tt \<or>
              find_first_occurrence events [''Port1In'', ''Port3In''] = ''Port3In'' \<and> contains ''right'' tt)]"
  using assms
  by (simp add: FollowTheLight_after_trial_def Let_def getattr_def self_attr_def register_value_def)

text \<open>
  C7 (amended). The outcome of a trial is a boolean. With the reward setting
  and the trial type present, \<^verbatim>\<open>after_trial\<close> registers \<^verbatim>\<open>correct = True\<close>
  when the first side poke of the log is on a side the trial type names,
  \<^verbatim>\<open>correct = False\<close> when it is on a side the trial type does not name, and
  \<^verbatim>\<open>correct = False\<close> as well when the log has no side poke: the record has
  the three fields \<^verbatim>\<open>water\<close>, \<^verbatim>\<open>trial_type\<close> and \<^verbatim>\<open>correct\<close> and no separate
  value for an omission.
\<close>


theorem after_trial_outcome_is_boolean:
  assumes "s ''reward_amount_ml'' = Some water"
      and "this_trial_type self = Some tt"
      and "first_poke = find_first_occurrence events [''Port1In'', ''Port3In'']"
  shows "(first_poke = ''Port1In'' \<and> contains ''left'' tt \<or>
          first_poke = ''Port3In'' \<and> contains ''right'' tt \<longrightarrow>
            FollowTheLight_after_trial s self events =
              Inr [''water'' \<mapsto> water, ''trial_type'' \<mapsto> Str tt, ''correct'' \<mapsto> Bool True]) \<and>
         (first_poke = ''Port1In'' \<and> \<not> contains ''left'' tt \<or>
          first_poke = ''Port3In'' \<and> \<not> contains ''right'' tt \<longrightarrow>
            FollowTheLight_after_trial s self events =
              Inr [''water'' \<mapsto> water, ''trial_type'' \<mapsto> Str tt, ''correct'' \<mapsto> Bool False]) \<and>
         (first_poke \<noteq> ''Port1In'' \<and> first_poke \<noteq> ''Port3In'' \<longrightarrow>
            FollowTheLight_after_trial s self events =
              Inr [''water'' \<mapsto> water, ''trial_type'' \<mapsto> Str tt, ''correct'' \<mapsto> Bool False])"
proof -
  have n: "''Port1In'' \<noteq> ''Port3In''" by simp
  show ?thesis
    unfolding after_trial_record [of s, OF assms(1,2)] assms(3) [symmetric]
    using n by auto
qed

lemma example_trial_left_easy:
  "FollowTheLight_create_trial (example_settings 2) (example_started 2) 0
     = Inr (example_left_easy_trial, example_left_easy_graph)"
  by (simp add: example_trial_defs example_left_easy_trial_def example_left_easy_graph_def)

lemma example_trial_type: "this_trial_type example_left_easy_trial = Some ''left_easy''"
  by (simp add: example_left_easy_trial_def)

lemma example_reward: "example_settings stage ''reward_amount_ml'' = Some (Num (8 / 100))"
  by (simp add: example_settings_def default_training_settings_def)

theorem after_trial_outcome_is_boolean_witness:
  "FollowTheLight_create_trial (example_settings 2) (example_started 2) 0
     = Inr (example_left_easy_trial, example_left_easy_graph) \<and>
   FollowTheLight_after_trial (example_settings 2) example_left_easy_trial
       [''Port2In'', ''Port1In'', ''Tup'', ''Tup'']
     = Inr [''water'' \<mapsto> Num (8 / 100), ''trial_type'' \<mapsto> Str ''left_easy'',
            ''correct'' \<mapsto> Bool True] \<and>
   FollowTheLight_after_trial (example_settings 2) example_left_easy_trial
       [''Port2In'', ''Port3In'', ''Tup'', ''Tup'']
     = Inr [''water'' \<mapsto> Num (8 / 100), ''trial_type'' \<mapsto> Str ''left_easy'',
            ''correct'' \<mapsto> Bool False] \<and>
   FollowTheLight_after_trial (example_settings 2) example_left_easy_trial [''Port2In'', ''Tup'']
     = Inr [''water'' \<mapsto> Num (8 / 100), ''trial_type'' \<mapsto> Str ''left_easy'',
            ''correct'' \<mapsto> Bool False]"
proof -
  note tt = example_trial_type
  have c: "contains ''left'' ''left_easy''" "\<not> contains ''right'' ''left_easy''"
    by simp_all
  have f: "find_first_occurrence [''Port2In'', ''Port1In'', ''Tup'', ''Tup''] [''Port1In'', ''Port3In'']
             = ''Port1In''"
    "find_first_occurrence [''Port2In'', ''Port3In'', ''Tup'', ''Tup''] [''Port1In'', ''Port3In'']
             = ''Port3In''"
    "find_first_occurrence [''Port2In'', ''Tup''] [''Port1In'', ''Port3In''] = ''NaN''"
    by simp_all
  have n: "''NaN'' \<noteq> ''Port1In''" "''NaN'' \<noteq> ''Port3In''"
    by simp_all
  from after_trial_outcome_is_boolean [of "example_settings 2", OF example_reward tt f(1) [symmetric]] c
  have r1: "FollowTheLight_after_trial (example_settings 2) example_left_easy_trial
           [''Port2In'', ''Port1In'', ''Tup'', ''Tup''] =
        Inr [''water'' \<mapsto> Num (8 / 100), ''trial_type'' \<mapsto> Str ''left_easy'',
            ''correct'' \<mapsto> Bool True]"
    by simp
  from after_trial_outcome_is_boolean [of "example_settings 2", OF example_reward tt f(2) [symmetric]] c
  have r2: "FollowTheLight_after_trial (example_settings 2) example_left_easy_trial
           [''Port2In'', ''Port3In'', ''Tup'', ''Tup''] =
        Inr [''water'' \<mapsto> Num (8 / 100), ''trial_type'' \<mapsto> Str ''left_easy'',
            ''correct'' \<mapsto> Bool False]"
    by simp
  from after_trial_outcome_is_boolean [of "example_settings 2", OF example_reward tt f(3) [symmetric]] n
  have r3: "FollowTheLight_after_trial (example_settings 2) example_left_easy_trial
           [''Port2In'', ''Tup''] =
        Inr [''water'' \<mapsto> Num (8 / 100), ''trial_type'' \<mapsto> Str ''left_easy'',
            ''correct'' \<mapsto> Bool False]"
    by simp
  from example_trial_left_easy r1 r2 r3 show ?thesis by (simp only: simp_thms)
qed

text \<open>
  The claim as stated fails: a log without a side poke and a log whose first
  side poke is on the wrong side give the same record, with
  \<^verbatim>\<open>correct = False\<close>.
\<close>

theorem omission_recorded_as_incorrect_counterexample:
  "FollowTheLight_create_trial (example_settings 2) (example_started 2) 0
     = Inr (example_left_easy_trial, example_left_easy_graph) \<and>
   find_first_occurrence [''Port2In'', ''Tup''] [''Port1In'', ''Port3In''] = ''NaN'' \<and>
   find_first_occurrence [''Port2In'', ''Port3In'', ''Tup'', ''Tup''] [''Port1In'', ''Port3In'']
     = ''Port3In'' \<and>
   FollowTheLight_after_trial (example_settings 2) example_left_easy_trial [''Port2In'', ''Tup'']
     = FollowTheLight_after_trial (example_settings 2) example_left_easy_trial
         [''Port2In'', ''Port3In'', ''Tup'', ''Tup''] \<and>
   FollowTheLight_after_trial (example_settings 2) example_left_easy_trial [''Port2In'', ''Tup'']
     = Inr [''water'' \<mapsto> Num (8 / 100), ''trial_type'' \<mapsto> Str ''left_easy'',
            ''correct'' \<mapsto> Bool False]"
  by (simp add: example_trial_left_easy
        after_trial_record [of "example_settings 2", OF example_reward example_trial_type])

lemma habituation_water:
  "s ''reward_amount_ml'' = Some water \<Longrightarrow>
   Habituation_after_trial s = Inr [''water'' \<mapsto> water]"
  by (simp add: Habituation_after_trial_def getattr_def register_value_def)

text \<open>
  C8. \<^verbatim>\<open>after_trial\<close> registers \<^verbatim>\<open>water = reward_amount_ml\<close> on every
  trial. In a stage 2 trial of type \<^verbatim>\<open>left_easy\<close> a first poke in port 3 leads
  to the punish state, whose output list is empty, and a trial without a side
  poke times out; in both the record holds \<^verbatim>\<open>water = 0.08\<close> next to
  \<^verbatim>\<open>correct = False\<close>.
\<close>

theorem water_registered_without_reward:
  "FollowTheLight_create_trial (example_settings 2) (example_started 2) 0
     = Inr (example_left_easy_trial, example_left_easy_graph) \<and>
   (''stimulus_state'', Port3In, ''punish_state'') \<in> set (transitions example_left_easy_graph) \<and>
   (''stimulus_state'', Tup, ''exit'') \<in> set (transitions example_left_easy_graph) \<and>
   FollowTheLight_after_trial (example_settings 2) example_left_easy_trial
       [''Port2In'', ''Port3In'', ''Tup'', ''Tup'']
     = Inr [''water'' \<mapsto> Num (8 / 100), ''trial_type'' \<mapsto> Str ''left_easy'',
            ''correct'' \<mapsto> Bool False] \<and>
   FollowTheLight_after_trial (example_settings 2) example_left_easy_trial [''Port2In'', ''Tup'']
     = Inr [''water'' \<mapsto> Num (8 / 100), ''trial_type'' \<mapsto> Str ''left_easy'',
            ''correct'' \<mapsto> Bool False]"
proof -
  have "(''stimulus_state'', Port3In, ''punish_state'') \<in> set (transitions example_left_easy_graph)"
    and "(''stimulus_state'', Tup, ''exit'') \<in> set (transitions example_left_easy_graph)"
    by (simp_all add: transitions_def example_left_easy_graph_def)
  then show ?thesis
    by (simp add: example_trial_left_easy
          after_trial_record [of "example_settings 2", OF example_reward example_trial_type])
qed

end
